theory Spec2Isabelle
  imports Main
begin

unbundle bit_operations_syntax

section \<open>The JavaScript values the assembler computes with\<close>

text \<open>
  The assembler (\<^verbatim>\<open>src/src/assembler.ts\<close>, with its compiled build
  \<^verbatim>\<open>src/bin/assembler.js\<close>) works on JavaScript strings and numbers.
  Strings are modelled as lists of 8-bit characters (code units below 256).
  A number is an exact integer or \<^verbatim>\<open>NaN\<close>; the bitwise operators first
  reduce their operands to 32 bits, as \<^verbatim>\<open>ToInt32\<close> and \<^verbatim>\<open>ToUint32\<close> do.
  Decimal literals beyond \<open>2 ^ 53\<close>, which JavaScript would round, are kept exact.
\<close>

datatype number = Num int | NaN

text \<open>\<^verbatim>\<open>ToInt32\<close> sends \<^verbatim>\<open>NaN\<close> to 0; the wrap to 32 bits is done by each operator.\<close>

fun toInt :: "number \<Rightarrow> int" where
  "toInt (Num n) = n"
| "toInt NaN = 0"

definition js_or :: "int \<Rightarrow> int \<Rightarrow> int" where
  "js_or a b = signed_take_bit 31 a OR signed_take_bit 31 b"

definition js_and :: "int \<Rightarrow> int \<Rightarrow> int" where
  "js_and a b = signed_take_bit 31 a AND signed_take_bit 31 b"

definition js_shl :: "int \<Rightarrow> int \<Rightarrow> int" where
  "js_shl a n = signed_take_bit 31 (push_bit (nat (n mod 32)) a)"

definition js_sar :: "int \<Rightarrow> int \<Rightarrow> int" where
  "js_sar a n = drop_bit (nat (n mod 32)) (signed_take_bit 31 a)"

definition js_shr :: "int \<Rightarrow> int \<Rightarrow> int" where
  "js_shr a n = drop_bit (nat (n mod 32)) (take_bit 32 a)"

subsection \<open>Strings\<close>

text \<open>White space as \<^verbatim>\<open>String.prototype.trim\<close> and \<^verbatim>\<open>parseInt\<close> see it:
  TAB, LF, VT, FF, CR, space and the no-break space.\<close>

definition is_space :: "char \<Rightarrow> bool" where
  "is_space c = ((of_char c :: nat) \<in> {9, 10, 11, 12, 13, 32, 160})"

definition trim :: "string \<Rightarrow> string" where
  "trim s = rev (dropWhile is_space (rev (dropWhile is_space s)))"

text \<open>\<^verbatim>\<open>s.indexOf(c)\<close> for a one-character needle: \<open>None\<close> stands for \<open>-1\<close>.\<close>

fun indexOf :: "string \<Rightarrow> char \<Rightarrow> nat option" where
  "indexOf [] c = None"
| "indexOf (x # xs) c =
     (if x = c then Some 0
      else (case indexOf xs c of None \<Rightarrow> None | Some i \<Rightarrow> Some (Suc i)))"

text \<open>\<^verbatim>\<open>value.split(",")\<close>: the empty string splits into one empty piece.\<close>

fun split_comma :: "string \<Rightarrow> string list" where
  "split_comma [] = [[]]"
| "split_comma (c # cs) =
     (if c = CHR '','' then [] # split_comma cs
      else (case split_comma cs of
              [] \<Rightarrow> [[c]]
            | p # ps \<Rightarrow> (c # p) # ps))"

subsection \<open>parseInt\<close>

definition digit_value :: "char \<Rightarrow> nat option" where
  "digit_value c =
     (let k = (of_char c :: nat) in
      if 48 \<le> k \<and> k \<le> 57 then Some (k - 48)
      else if 97 \<le> k \<and> k \<le> 122 then Some (k - 87)
      else if 65 \<le> k \<and> k \<le> 90 then Some (k - 55)
      else None)"

definition is_digit :: "nat \<Rightarrow> char \<Rightarrow> bool" where
  "is_digit R c = (case digit_value c of None \<Rightarrow> False | Some d \<Rightarrow> d < R)"

definition digits_value :: "nat \<Rightarrow> string \<Rightarrow> int" where
  "digits_value R z = foldl (\<lambda>acc c. acc * int R + int (the (digit_value c))) 0 z"

text \<open>
  \<^verbatim>\<open>parseInt(s, radix)\<close> for the radices \<open>0\<close> (the source passes \<^verbatim>\<open>null\<close>),
  \<open>2\<close> and \<open>16\<close>: skip leading white space, read a sign, for radix 0 and 16 strip
  a \<^verbatim>\<open>0x\<close> prefix (which makes radix 0 hexadecimal, decimal otherwise), then read
  the longest prefix of digits; no digit at all gives \<^verbatim>\<open>NaN\<close>.
\<close>

definition parseInt :: "string \<Rightarrow> nat \<Rightarrow> number" where
  "parseInt s radix =
     (let S = dropWhile is_space s;
          sign = (if S \<noteq> [] \<and> hd S = CHR ''-'' then - 1 else (1::int));
          S1 = (if S \<noteq> [] \<and> (hd S = CHR ''+'' \<or> hd S = CHR ''-'') then tl S else S);
          stripPrefix = (radix = 0 \<or> radix = 16);
          hex = (stripPrefix \<and> (take 2 S1 = ''0x'' \<or> take 2 S1 = ''0X''));
          R = (if hex then 16 else if radix = 0 then 10 else radix);
          S2 = (if hex then drop 2 S1 else S1);
          Z = takeWhile (is_digit R) S2
      in if Z = [] then NaN else Num (sign * digits_value R Z))"

section \<open>Regular expressions\<close>

text \<open>
  The argument patterns of the table are JavaScript regular expressions. They are kept
  as data and run by a backtracking matcher that lists the ways a pattern can match at
  a position in JavaScript's priority order (greedy repetition first, left alternative
  first). \<^verbatim>\<open>String.prototype.match\<close> takes the first way at the leftmost start.
\<close>

datatype rx =
    Chr char                       \<comment> \<open>a literal character\<close>
  | Cls "(char \<times> char) list"       \<comment> \<open>\<^verbatim>\<open>[a-z...]\<close>, a list of ranges\<close>
  | NCls "(char \<times> char) list"      \<comment> \<open>\<^verbatim>\<open>[^...]\<close>\<close>
  | Dot                            \<comment> \<open>\<^verbatim>\<open>.\<close>: any character but a line terminator\<close>
  | Bol                            \<comment> \<open>\<^verbatim>\<open>^\<close>\<close>
  | Eol                            \<comment> \<open>\<^verbatim>\<open>$\<close>\<close>
  | Eps                            \<comment> \<open>the empty pattern\<close>
  | Seq rx rx
  | Alt rx rx
  | Star rx
  | Grp nat rx                     \<comment> \<open>capture group number \<open>k\<close>\<close>

definition in_ranges :: "char \<Rightarrow> (char \<times> char) list \<Rightarrow> bool" where
  "in_ranges c rs =
     list_ex (\<lambda>r. (of_char (fst r) :: nat) \<le> of_char c \<and> (of_char c :: nat) \<le> of_char (snd r)) rs"

definition is_line_terminator :: "char \<Rightarrow> bool" where
  "is_line_terminator c = ((of_char c :: nat) \<in> {10, 13})"

text \<open>A matcher state: characters consumed so far, the rest of the input, and the
  array \<^verbatim>\<open>m\<close> of captures (\<open>None\<close> is \<^verbatim>\<open>undefined\<close>).\<close>

type_synonym mstate = "nat \<times> string \<times> string option list"

fun rx_step :: "(char \<Rightarrow> bool) \<Rightarrow> mstate \<Rightarrow> mstate list" where
  "rx_step P (p, [], g) = []"
| "rx_step P (p, x # xs, g) = (if P x then [(Suc p, xs, g)] else [])"

function (sequential) rx_run :: "rx \<Rightarrow> mstate \<Rightarrow> mstate list" where
  "rx_run (Chr c) st = rx_step (\<lambda>x. x = c) st"
| "rx_run (Cls rs) st = rx_step (\<lambda>x. in_ranges x rs) st"
| "rx_run (NCls rs) st = rx_step (\<lambda>x. \<not> in_ranges x rs) st"
| "rx_run Dot st = rx_step (\<lambda>x. \<not> is_line_terminator x) st"
| "rx_run Bol st = (if fst st = 0 then [st] else [])"
| "rx_run Eol st = (if fst (snd st) = [] then [st] else [])"
| "rx_run Eps st = [st]"
| "rx_run (Seq a b) st = concat (map (rx_run b) (rx_run a st))"
| "rx_run (Alt a b) st = rx_run a st @ rx_run b st"
| "rx_run (Star a) st =
     concat (map (\<lambda>st'. if length (fst (snd st')) < length (fst (snd st))
                         then rx_run (Star a) st' else [])
                 (rx_run a st)) @ [st]"
| "rx_run (Grp k a) st =
     map (\<lambda>st'. (fst st', fst (snd st'),
                 (snd (snd st'))[k := Some (take (fst st' - fst st) (fst (snd st)))]))
         (rx_run a st)"
  by pat_completeness auto
termination
  by (relation "measures [\<lambda>(r, st). size r, \<lambda>(r, st). length (fst (snd st))]") auto

definition plus :: "rx \<Rightarrow> rx" where
  "plus r = Seq r (Star r)"

fun seqs :: "rx list \<Rightarrow> rx" where
  "seqs [] = Eps"
| "seqs [r] = r"
| "seqs (r # rs) = Seq r (seqs rs)"

definition lit :: "string \<Rightarrow> rx" where
  "lit s = seqs (map Chr s)"

fun groups :: "rx \<Rightarrow> nat" where
  "groups (Seq a b) = groups a + groups b"
| "groups (Alt a b) = groups a + groups b"
| "groups (Star a) = groups a"
| "groups (Grp k a) = Suc (groups a)"
| "groups r = 0"

text \<open>
  \<^verbatim>\<open>args.match(regex)\<close> without the \<^verbatim>\<open>g\<close> flag: the first match at the
  leftmost start position, as the array \<open>m\<close> with \<open>m[0]\<close> the matched text and
  \<open>m[k]\<close> the \<open>k\<close>-th capture; \<open>None\<close> is \<^verbatim>\<open>null\<close>.
\<close>

fun rx_search :: "rx \<Rightarrow> nat \<Rightarrow> string \<Rightarrow> string option list option" where
  "rx_search r p s =
     (case rx_run r (p, s, replicate (Suc (groups r)) None) of
        st # _ \<Rightarrow> Some ((snd (snd st))[0 := Some (take (fst st - p) s)])
      | [] \<Rightarrow> (case s of [] \<Rightarrow> None | _ # xs \<Rightarrow> rx_search r (Suc p) xs))"

definition match :: "string \<Rightarrow> rx \<Rightarrow> string option list option" where
  "match s r = rx_search r 0 s"

section \<open>Argument converters\<close>

text \<open>
  Every \<^verbatim>\<open>throw\<close> of the source is a value of \<open>error\<close>; a constructor carries
  exactly the values that the thrown message interpolates. The messages of \<^verbatim>\<open>reg\<close>
  and \<^verbatim>\<open>rlistLr\<close> interpolate the function \<^verbatim>\<open>reg\<close>, not the offending text,
  so \<open>UnknownRegisterName\<close> carries nothing.
\<close>

datatype error =
    UnknownRegisterName
  | UnknownRegisterName4 string
  | UnknownRegisterOrImmediate string
  | ExpectingHash
  | InvalidNumberT3 string
  | UnknownLabel string
  | InvalidNumber string number int int  \<comment> \<open>value, binValue, maxValue, shift\<close>
  | LabelAlreadyDefined string
  | UnknownOp string string              \<comment> \<open>opName, line\<close>
  | UnknownArgStyle string string        \<comment> \<open>args, line\<close>
  | TypeError                            \<comment> \<open>raised by the JavaScript runtime\<close>

type_synonym labels = "string \<rightharpoonup> int"

type_synonym converter = "string \<Rightarrow> labels \<Rightarrow> error + int"

text \<open>
  The operator \<^verbatim>\<open>in\<close> also finds the properties every object inherits from
  \<^verbatim>\<open>Object.prototype\<close>. Their values are functions or objects, which
  \<^verbatim>\<open>ToInt32\<close> sends to 0 and arithmetic sends to \<^verbatim>\<open>NaN\<close>.
\<close>

definition object_prototype_keys :: "string list" where
  "object_prototype_keys =
     [''constructor'', ''toString'', ''toLocaleString'', ''valueOf'', ''hasOwnProperty'',
      ''isPrototypeOf'', ''propertyIsEnumerable'', ''__proto__'', ''__defineGetter__'',
      ''__defineSetter__'', ''__lookupGetter__'', ''__lookupSetter__'']"

definition inherited :: "string \<Rightarrow> bool" where
  "inherited k = (k \<in> set object_prototype_keys)"

definition low_regs :: "(string \<times> int) list" where
  "low_regs = [(''r0'', 0), (''r1'', 1), (''r2'', 2), (''r3'', 3),
               (''r4'', 4), (''r5'', 5), (''r6'', 6), (''r7'', 7)]"

definition rlist_vals :: "(string \<times> int) list" where
  "rlist_vals = [(''r0'', 1), (''r1'', 2), (''r2'', 4), (''r3'', 8), (''r4'', 16),
                 (''r5'', 32), (''r6'', 64), (''r7'', 128), (''lr'', 256)]"

definition reg4_vals :: "(string \<times> int) list" where
  "reg4_vals = [(''r0'', 0), (''r1'', 1), (''r2'', 2), (''r3'', 3), (''r4'', 4),
                (''r5'', 5), (''r6'', 6), (''r7'', 7), (''r8'', 8), (''r9'', 9),
                (''r10'', 10), (''r11'', 11), (''r12'', 12), (''r13'', 13),
                (''r14'', 14), (''r15'', 15), (''lr'', 14), (''pc'', 15)]"

fun rlist_loop :: "string list \<Rightarrow> int \<Rightarrow> error + int" where
  "rlist_loop [] bits = Inr bits"
| "rlist_loop (r # rs) bits =
     (case map_of rlist_vals (trim r) of
        Some v \<Rightarrow> rlist_loop rs (js_or bits v)
      | None \<Rightarrow> if inherited (trim r) then rlist_loop rs (js_or bits 0)
                else Inl UnknownRegisterName)"

definition rlistLr :: converter where
  "rlistLr value labels = rlist_loop (split_comma value) 0"

definition reg :: "int \<Rightarrow> converter" where
  "reg regOffset r labels =
     (case map_of low_regs r of
        Some v \<Rightarrow> Inr (js_shl v regOffset)
      | None \<Rightarrow> if inherited r then Inr (js_shl 0 regOffset) else Inl UnknownRegisterName)"

definition reg4 :: "int \<Rightarrow> converter" where
  "reg4 regOffset r labels =
     (case map_of reg4_vals r of
        Some v \<Rightarrow> Inr (js_shl v regOffset)
      | None \<Rightarrow> if inherited r then Inr (js_shl 0 regOffset) else Inl (UnknownRegisterName4 r))"

definition regOrImmediate :: "int \<Rightarrow> int \<Rightarrow> converter" where
  "regOrImmediate regOffset immediateBit r labels =
     (case parseInt r 0 of
        Num regVal \<Rightarrow>
          if 0 \<le> regVal \<and> regVal < 8
          then Inr (js_or (js_shl (js_and regVal 7) regOffset) (js_shl 1 immediateBit))
          else (case map_of low_regs r of
                  Some v \<Rightarrow> Inr (js_shl v regOffset)
                | None \<Rightarrow> if inherited r then Inr (js_shl 0 regOffset)
                          else Inl (UnknownRegisterOrImmediate r))
      | NaN \<Rightarrow>
          (case map_of low_regs r of
             Some v \<Rightarrow> Inr (js_shl v regOffset)
           | None \<Rightarrow> if inherited r then Inr (js_shl 0 regOffset)
                     else Inl (UnknownRegisterOrImmediate r)))"

definition thumb2ImmediateT3 :: converter where
  "thumb2ImmediateT3 value labels =
     (if take 1 value \<noteq> ''#'' then Inl ExpectingHash
      else (case parseInt (drop 1 value) 0 of
              Num v \<Rightarrow>
                if 0 \<le> v \<and> v < 65536
                then (let imm4 = js_and (js_sar v 12) 15;
                          i = js_and (js_sar v 11) 1;
                          imm3 = js_and (js_sar v 8) 7;
                          imm8 = js_and v 255
                      in Inr (js_or (js_or (js_or (js_shl i 26) (js_shl imm4 16))
                                           (js_shl imm3 12)) imm8))
                else Inl (InvalidNumberT3 value)
            | NaN \<Rightarrow> Inl (InvalidNumberT3 value)))"

text \<open>
  \<^verbatim>\<open>labels[value] + addValue - labels.PC\<close>: a number when the label is an own
  property with a number, \<^verbatim>\<open>NaN\<close> when \<^verbatim>\<open>addValue\<close> is, when the label is
  inherited, or when \<^verbatim>\<open>PC\<close> is not set.
\<close>

definition displacement :: "labels \<Rightarrow> string \<Rightarrow> number \<Rightarrow> number" where
  "displacement labels value addValue =
     (case (labels value, addValue, labels ''PC'') of
        (Some a, Num d, Some pc) \<Rightarrow> Num (a + d - pc)
      | _ \<Rightarrow> NaN)"

definition convertInt :: "int \<Rightarrow> int \<Rightarrow> int \<Rightarrow> bool \<Rightarrow> converter" where
  "convertInt offset bits shift signed value0 labels =
     (let maxValue0 = js_shl (js_shl 1 bits - 1) shift;
          minValue = (if signed then - js_shl 1 (bits - 1) else 0);
          maxValue = (if signed then maxValue0 + minValue else maxValue0);
          parsed =
            (if take 1 value0 = ''#'' then Inr (value0, parseInt (drop 1 value0) 0)
             else
               (let (addValue, value) =
                      (case indexOf value0 CHR ''+'' of
                         Some maths \<Rightarrow> (parseInt (drop maths value0) 0, take maths value0)
                       | None \<Rightarrow> (Num 0, value0))
                in if labels value \<noteq> None \<or> inherited value
                   then Inr (value, displacement labels value addValue)
                   else Inl (UnknownLabel value)))
      in case parsed of
           Inl e \<Rightarrow> Inl e
         | Inr (value, binValue) \<Rightarrow>
             (case binValue of
                Num b \<Rightarrow>
                  if minValue \<le> b \<and> b \<le> maxValue \<and> js_and b (js_shl 1 shift - 1) = 0
                  then Inr (js_shl (js_and (js_sar b shift) (js_shl 1 bits - 1)) offset)
                  else Inl (InvalidNumber value binValue maxValue shift)
              | NaN \<Rightarrow> Inl (InvalidNumber value binValue maxValue shift)))"

definition uint :: "int \<Rightarrow> int \<Rightarrow> int \<Rightarrow> converter" where
  "uint offset bits shift = convertInt offset bits shift False"

definition sint :: "int \<Rightarrow> int \<Rightarrow> int \<Rightarrow> converter" where
  "sint offset bits shift = convertInt offset bits shift True"

definition blAddr :: converter where
  "blAddr value labels =
     (case sint 0 22 1 value labels of
        Inl e \<Rightarrow> Inl e
      | Inr v \<Rightarrow> Inr (js_or (js_shl (js_and (js_sar v 11) 2047) 16) (js_and v 2047)))"

text \<open>The two anonymous converters of \<^verbatim>\<open>.word\<close>.\<close>

definition word_hex :: converter where
  "word_hex v labels =
     (let vi = toInt (parseInt v 16) in Inr (js_or (js_sar vi 16) (js_shl vi 16)))"

definition word_dec :: converter where
  "word_dec v labels =
     (let vi = toInt (parseInt v 0) in Inr (js_or (js_sar vi 16) (js_shl vi 16)))"

section \<open>The instruction table\<close>

record InstructionFormat =
  base :: string
  regex :: rx
  args :: "converter list"

definition fmt :: "string \<Rightarrow> rx \<Rightarrow> converter list \<Rightarrow> InstructionFormat" where
  "fmt b r a = \<lparr>base = b, regex = r, args = a\<rparr>"

subsection \<open>The argument patterns\<close>

definition rx_reg :: rx where    \<comment> \<open>\<^verbatim>\<open>r[0-7]\<close>\<close>
  "rx_reg = Seq (Chr CHR ''r'') (Cls [(CHR ''0'', CHR ''7'')])"

definition rx_imm :: rx where    \<comment> \<open>\<^verbatim>\<open>#[0-9]+\<close>\<close>
  "rx_imm = Seq (Chr CHR ''#'') (plus (Cls [(CHR ''0'', CHR ''9'')]))"

definition rx_label :: rx where  \<comment> \<open>\<^verbatim>\<open>[a-zA-Z_][0-9a-zA-Z_]*\<close>\<close>
  "rx_label =
     Seq (Cls [(CHR ''a'', CHR ''z''), (CHR ''A'', CHR ''Z''), (CHR ''_'', CHR ''_'')])
         (Star (Cls [(CHR ''0'', CHR ''9''), (CHR ''a'', CHR ''z''), (CHR ''A'', CHR ''Z''),
                     (CHR ''_'', CHR ''_'')]))"

definition rx_label_plus :: rx where  \<comment> \<open>\<^verbatim>\<open>[a-zA-Z_][0-9a-zA-Z_]*\+[0-9]+\<close>\<close>
  "rx_label_plus = seqs [rx_label, Chr CHR ''+'', plus (Cls [(CHR ''0'', CHR ''9'')])]"

definition rx_notcomma :: rx where  \<comment> \<open>\<^verbatim>\<open>[^,]+\<close>\<close>
  "rx_notcomma = plus (NCls [(CHR '','', CHR '','')])"

definition p_rr_imm :: rx where  \<comment> \<open>\<^verbatim>\<open>/(r[0-7]),(r[0-7]),(#[0-9]+)$/\<close>\<close>
  "p_rr_imm = seqs [Grp 1 rx_reg, Chr CHR '','', Grp 2 rx_reg, Chr CHR '','', Grp 3 rx_imm, Eol]"

definition p_rr :: rx where  \<comment> \<open>\<^verbatim>\<open>/(r[0-7]),(r[0-7])$/\<close>\<close>
  "p_rr = seqs [Grp 1 rx_reg, Chr CHR '','', Grp 2 rx_reg, Eol]"

definition p_r_imm :: rx where  \<comment> \<open>\<^verbatim>\<open>/(r[0-7]),(#[0-9]+)$/\<close>\<close>
  "p_r_imm = seqs [Grp 1 rx_reg, Chr CHR '','', Grp 2 rx_imm, Eol]"

definition p_all :: rx where  \<comment> \<open>\<^verbatim>\<open>/^(.*)$/\<close>\<close>
  "p_all = seqs [Bol, Grp 1 (Star Dot), Eol]"

definition p_bx :: rx where  \<comment> \<open>\<^verbatim>\<open>/(lr|r[0-9]+)$/\<close>\<close>
  "p_bx = seqs [Grp 1 (Alt (lit ''lr'')
                           (Seq (Chr CHR ''r'') (plus (Cls [(CHR ''0'', CHR ''9'')])))), Eol]"

definition p_a_r_label :: rx where  \<comment> \<open>\<^verbatim>\<open>/^(r[0-7]),([a-zA-Z_][0-9a-zA-Z_]*)$/\<close>\<close>
  "p_a_r_label = seqs [Bol, Grp 1 rx_reg, Chr CHR '','', Grp 2 rx_label, Eol]"

definition p_a_r_label_plus :: rx where
  \<comment> \<open>\<^verbatim>\<open>/^(r[0-7]),([a-zA-Z_][0-9a-zA-Z_]*\+[0-9]+)$/\<close>\<close>
  "p_a_r_label_plus = seqs [Bol, Grp 1 rx_reg, Chr CHR '','', Grp 2 rx_label_plus, Eol]"

definition p_braces :: rx where  \<comment> \<open>\<^verbatim>\<open>/^{(.*)}$/\<close>\<close>
  "p_braces = seqs [Bol, Chr CHR 0x7B, Grp 1 (Star Dot), Chr CHR 0x7D, Eol]"

definition p_r_pc_imm :: rx where  \<comment> \<open>\<^verbatim>\<open>/^(r[0-7]),pc,(#[0-9]+)$/\<close>\<close>
  "p_r_pc_imm = seqs [Bol, Grp 1 rx_reg, lit '',pc,'', Grp 2 rx_imm, Eol]"

definition p_r_sp_imm :: rx where  \<comment> \<open>\<^verbatim>\<open>/^(r[0-7]),sp,(#[0-9]+)$/\<close>\<close>
  "p_r_sp_imm = seqs [Bol, Grp 1 rx_reg, lit '',sp,'', Grp 2 rx_imm, Eol]"

definition p_sp_imm :: rx where  \<comment> \<open>\<^verbatim>\<open>/^sp,(#[0-9]+)$/\<close>\<close>
  "p_sp_imm = seqs [Bol, lit ''sp,'', Grp 1 rx_imm, Eol]"

definition p_a_rr_any :: rx where  \<comment> \<open>\<^verbatim>\<open>/^(r[0-7]),(r[0-7]),([^,]+)$/\<close>\<close>
  "p_a_rr_any = seqs [Bol, Grp 1 rx_reg, Chr CHR '','', Grp 2 rx_reg, Chr CHR '','',
                      Grp 3 rx_notcomma, Eol]"

definition p_a_rrr :: rx where  \<comment> \<open>\<^verbatim>\<open>/^(r[0-7]),(r[0-7]),(r[0-7])$/\<close>\<close>
  "p_a_rrr = seqs [Bol, Grp 1 rx_reg, Chr CHR '','', Grp 2 rx_reg, Chr CHR '','',
                   Grp 3 rx_reg, Eol]"

definition p_a_rr_imm :: rx where  \<comment> \<open>\<^verbatim>\<open>/^(r[0-7]),(r[0-7]),(#[0-9]+)$/\<close>\<close>
  "p_a_rr_imm = seqs [Bol, Grp 1 rx_reg, Chr CHR '','', Grp 2 rx_reg, Chr CHR '','',
                      Grp 3 rx_imm, Eol]"

definition p_a_any3 :: rx where  \<comment> \<open>\<^verbatim>\<open>/^([^,]+),([^,]+),([^,]+)$/\<close>\<close>
  "p_a_any3 = seqs [Bol, Grp 1 rx_notcomma, Chr CHR '','', Grp 2 rx_notcomma, Chr CHR '','',
                    Grp 3 rx_notcomma, Eol]"

definition p_mem_rr :: rx where  \<comment> \<open>\<^verbatim>\<open>/(r[0-7]),\[(r[0-7]),(r[0-7])\]$/\<close>\<close>
  "p_mem_rr = seqs [Grp 1 rx_reg, lit '',['', Grp 2 rx_reg, Chr CHR '','', Grp 3 rx_reg,
                    Chr CHR '']'', Eol]"

definition p_mem_sp :: rx where  \<comment> \<open>\<^verbatim>\<open>/(r[0-7]),\[sp,(#[0-9]+)\]$/\<close>\<close>
  "p_mem_sp = seqs [Grp 1 rx_reg, lit '',[sp,'', Grp 2 rx_imm, Chr CHR '']'', Eol]"

definition p_mem_r :: rx where  \<comment> \<open>\<^verbatim>\<open>/(r[0-7]),\[(r[0-7])\]$/\<close>\<close>
  "p_mem_r = seqs [Grp 1 rx_reg, lit '',['', Grp 2 rx_reg, Chr CHR '']'', Eol]"

definition p_mem_r_imm :: rx where  \<comment> \<open>\<^verbatim>\<open>/(r[0-7]),\[(r[0-7]),(#[0-9]+)\]$/\<close>\<close>
  "p_mem_r_imm = seqs [Grp 1 rx_reg, lit '',['', Grp 2 rx_reg, Chr CHR '','', Grp 3 rx_imm,
                       Chr CHR '']'', Eol]"

definition p_mem_pc :: rx where  \<comment> \<open>\<^verbatim>\<open>/(r[0-7]),\[pc,(#[0-9]+)\]$/\<close>\<close>
  "p_mem_pc = seqs [Grp 1 rx_reg, lit '',[pc,'', Grp 2 rx_imm, Chr CHR '']'', Eol]"

definition p_r_label :: rx where  \<comment> \<open>\<^verbatim>\<open>/(r[0-7]),([a-zA-Z_][0-9a-zA-Z_]*)$/\<close>\<close>
  "p_r_label = seqs [Grp 1 rx_reg, Chr CHR '','', Grp 2 rx_label, Eol]"

definition p_r_label_plus :: rx where
  \<comment> \<open>\<^verbatim>\<open>/(r[0-7]),([a-zA-Z_][0-9a-zA-Z_]*\+[0-9]+)$/\<close>\<close>
  "p_r_label_plus = seqs [Grp 1 rx_reg, Chr CHR '','', Grp 2 rx_label_plus, Eol]"

definition p_sp_r :: rx where  \<comment> \<open>\<^verbatim>\<open>/sp,(r[0-7])$/\<close>\<close>
  "p_sp_r = seqs [lit ''sp,'', Grp 1 rx_reg, Eol]"

definition p_hex :: rx where  \<comment> \<open>\<^verbatim>\<open>/0x([0-9A-Fa-f]+)$/\<close>\<close>
  "p_hex = seqs [lit ''0x'',
                 Grp 1 (plus (Cls [(CHR ''0'', CHR ''9''), (CHR ''A'', CHR ''F''),
                                   (CHR ''a'', CHR ''f'')])), Eol]"

definition p_dec :: rx where  \<comment> \<open>\<^verbatim>\<open>/([0-9]+)$/\<close>\<close>
  "p_dec = seqs [Grp 1 (plus (Cls [(CHR ''0'', CHR ''9'')])), Eol]"

definition p_empty :: rx where  \<comment> \<open>\<^verbatim>\<open>new RegExp("")\<close>\<close>
  "p_empty = Eps"

definition p_i :: rx where  \<comment> \<open>\<^verbatim>\<open>/i/\<close>\<close>
  "p_i = Chr CHR ''i''"

definition p_imm :: rx where  \<comment> \<open>\<^verbatim>\<open>/(#[0-9]+)$/\<close>\<close>
  "p_imm = seqs [Grp 1 rx_imm, Eol]"

subsection \<open>The table \<^verbatim>\<open>ops\<close>, in source order\<close>

definition shift_op :: "string \<Rightarrow> string \<Rightarrow> InstructionFormat list" where
  \<comment> \<open>the two variants shared by \<^verbatim>\<open>lsl\<close>, \<^verbatim>\<open>lsr\<close>, \<^verbatim>\<open>asr\<close>\<close>
  "shift_op b1 b2 = [fmt b1 p_rr_imm [reg 0, reg 3, uint 6 5 0], fmt b2 p_rr [reg 0, reg 3]]"

definition alu_op :: "string \<Rightarrow> InstructionFormat list" where
  \<comment> \<open>the single variant of the Format 4 ALU operations\<close>
  "alu_op b = [fmt b p_rr [reg 0, reg 3]]"

definition branch_op :: "string \<Rightarrow> InstructionFormat list" where
  \<comment> \<open>the single variant of the Format 16 conditional branches\<close>
  "branch_op b = [fmt b p_all [sint 0 8 1]]"

definition ops :: "(string \<times> InstructionFormat list) list" where
  "ops =
   [(''lsl'', shift_op ''00000-----___---'' ''0100000010___---''),
    (''lsr'', shift_op ''00001-----___---'' ''0100000011___---''),
    (''asr'', shift_op ''00010-----___---'' ''0100000100___---''),
    (''cmp'', [fmt ''00101---________'' p_r_imm [reg 8, uint 0 8 0],
               fmt ''0100001010___---'' p_rr [reg 0, reg 3]]),
    (''and'', alu_op ''0100000000___---''),
    (''eor'', alu_op ''0100000001___---''),
    (''adc'', alu_op ''0100000101___---''),
    (''sbc'', alu_op ''0100000110___---''),
    (''ror'', alu_op ''0100000111___---''),
    (''tst'', alu_op ''0100001000___---''),
    (''neg'', alu_op ''0100001001___---''),
    (''cmn'', alu_op ''0100001011___---''),
    (''orr'', alu_op ''0100001100___---''),
    (''mul'', alu_op ''0100001101___---''),
    (''bic'', alu_op ''0100001110___---''),
    (''mvn'', alu_op ''0100001111___---''),
    (''beq'', branch_op ''11010000________''),
    (''bne'', branch_op ''11010001________''),
    (''bcs'', branch_op ''11010010________''),
    (''bcc'', branch_op ''11010011________''),
    (''bmi'', branch_op ''11010100________''),
    (''bpl'', branch_op ''11010101________''),
    (''bvs'', branch_op ''11010110________''),
    (''bvc'', branch_op ''11010111________''),
    (''bhi'', branch_op ''11011000________''),
    (''bls'', branch_op ''11011001________''),
    (''bge'', branch_op ''11011010________''),
    (''blt'', branch_op ''11011011________''),
    (''bgt'', branch_op ''11011100________''),
    (''ble'', branch_op ''11011101________''),
    (''b'', [fmt ''11100___________'' p_all [sint 0 11 1]]),
    (''bl'', [fmt ''11110___________11111___________'' p_all [blAddr]]),
    (''bx'', [fmt ''010001110----000'' p_bx [reg4 3]]),
    (''adr'', [fmt ''10100---________'' p_a_r_label [reg 8, uint 0 8 2],
               fmt ''10100---________'' p_a_r_label_plus [reg 8, uint 0 8 2]]),
    (''push'', [fmt ''1011010-________'' p_braces [rlistLr]]),
    (''pop'', [fmt ''1011110-________'' p_braces [rlistLr]]),
    (''add'', [fmt ''00110---________'' p_r_imm [reg 8, uint 0 8 0],
               fmt ''10100---________'' p_r_pc_imm [reg 8, uint 0 8 2],
               fmt ''10101---________'' p_r_sp_imm [reg 8, uint 0 8 2],
               fmt ''101100000_______'' p_sp_imm [uint 0 7 2],
               fmt ''00011-0___---___'' p_a_rr_any [reg 0, reg 3, regOrImmediate 6 10]]),
    (''adds'', [fmt ''00011-0___---___'' p_a_rr_any [reg 0, reg 3, regOrImmediate 6 10]]),
    (''adc.w'', [fmt ''111010110100----________--------'' p_a_rrr [reg 16, reg 8, reg 0]]),
    (''add.w'', [fmt ''11110001--------________--------'' p_a_rr_imm
                   [reg 16, reg 8, uint 0 8 0]]),
    (''sub'', [fmt ''00111---________'' p_r_imm [reg 8, uint 0 8 0],
               fmt ''101100001_______'' p_sp_imm [uint 0 7 2],
               fmt ''00011-1___---___'' p_a_any3 [reg 0, reg 3, regOrImmediate 6 10]]),
    (''str'', [fmt ''0101000---___---'' p_mem_rr [reg 0, reg 3, reg 6],
               fmt ''10010---________'' p_mem_sp [reg 8, uint 0 8 2],
               fmt ''0110000000___---'' p_mem_r [reg 0, reg 3],
               fmt ''0110000---___---'' p_mem_r_imm [reg 0, reg 3, uint 6 5 2]]),
    (''strb'', [fmt ''0101010---___---'' p_mem_rr [reg 0, reg 3, reg 6],
                fmt ''0111000---___---'' p_mem_r_imm [reg 0, reg 3, uint 6 5 2]]),
    (''ldr'', [fmt ''01001---________'' p_mem_pc [reg 8, uint 0 8 2],
               fmt ''10011---________'' p_mem_sp [reg 8, uint 0 8 2],
               fmt ''01001---________'' p_r_label [reg 8, uint 0 8 2],
               fmt ''01001---________'' p_r_label_plus [reg 8, uint 0 8 2],
               fmt ''0101100---___---'' p_mem_rr [reg 0, reg 3, reg 6],
               fmt ''0110100000___---'' p_mem_r [reg 0, reg 3],
               fmt ''0110100---___---'' p_mem_r_imm [reg 0, reg 3, uint 6 5 2]]),
    (''ldrb'', [fmt ''0101110---___---'' p_mem_rr [reg 0, reg 3, reg 6],
                fmt ''0110100---___---'' p_mem_r_imm [reg 0, reg 3, uint 6 5 2]]),
    (''mov'', [fmt ''00100---________'' p_r_imm [reg 8, uint 0 8 0],
               fmt ''0001110000---___'' p_rr [reg 0, reg 3],
               fmt ''0100011010---101'' p_sp_r [reg 3]]),
    (''movs'', [fmt ''00100---________'' p_r_imm [reg 8, uint 0 8 0]]),
    (''movw'', [fmt ''11110-100100----0___----________'' p_r_imm [reg4 8, thumb2ImmediateT3]]),
    (''.word'', [fmt ''--------------------------------'' p_hex [word_hex],
                 fmt ''--------------------------------'' p_dec [word_dec]]),
    (''nop'', [fmt ''0100011011000000'' p_empty []]),
    (''cpsie'', [fmt ''1011011001100010'' p_i []]),
    (''cpsid'', [fmt ''1011011001110010'' p_i []]),
    (''wfe'', [fmt ''1011111100100000'' p_i []]),
    (''wfi'', [fmt ''1011111100110000'' p_i []]),
    (''bkpt'', [fmt ''10111110--------'' p_imm [uint 0 8 0]])]"

section \<open>The two-pass engine\<close>

definition getOpCode :: "string \<Rightarrow> number" where
  "getOpCode binary =
     (let base = map (\<lambda>b. if b = CHR ''-'' \<or> b = CHR ''_'' then CHR ''0'' else b) binary
      in case parseInt base 2 of
           Num opCode \<Rightarrow> if opCode < 0 then Num (opCode + 2147483648) else Num opCode
         | NaN \<Rightarrow> NaN)"

text \<open>
  The state of one run of \<^verbatim>\<open>assembleInternal\<close>: the address, the labels found so
  far, and the words handed to \<^verbatim>\<open>wordCallback\<close> so far, in order.
\<close>

record engine =
  addr :: int
  newLabels :: labels
  emitted :: "number list"

text \<open>
  The loop over \<^verbatim>\<open>op.args\<close>. The capture \<open>m[i+1]\<close> of a pattern of the table is
  never \<^verbatim>\<open>undefined\<close> when the pattern matches; were it so, the converters would
  throw, which is the \<open>TypeError\<close> here.
\<close>

fun apply_args :: "converter list \<Rightarrow> nat \<Rightarrow> string option list \<Rightarrow> labels \<Rightarrow> number
                    \<Rightarrow> error + number" where
  "apply_args [] i m labels opCode = Inr opCode"
| "apply_args (argFunction # rest) i m labels opCode =
     (if Suc i < length m then
        (case m ! Suc i of
           None \<Rightarrow> Inl TypeError
         | Some text \<Rightarrow>
             (case argFunction text labels of
                Inl e \<Rightarrow> Inl e
              | Inr bits \<Rightarrow> apply_args rest (Suc i) m labels (Num (js_or (toInt opCode) bits))))
      else Inl TypeError)"

text \<open>
  The body of \<^verbatim>\<open>if (m) { ... }\<close> for the variant \<open>op\<close> that matched with the
  captures \<open>m\<close>: the words handed to the callback and the size added to \<^verbatim>\<open>addr\<close>.
  The converters run only when \<^verbatim>\<open>labels\<close> is defined (pass 2).
\<close>

definition emit_variant :: "InstructionFormat \<Rightarrow> string option list \<Rightarrow> labels option
                            \<Rightarrow> error + number list \<times> int" where
  "emit_variant op m labels =
     (case (case labels of
              None \<Rightarrow> Inr (getOpCode (base op))
            | Some L \<Rightarrow> apply_args (args op) 0 m L (getOpCode (base op))) of
        Inl e \<Rightarrow> Inl e
      | Inr opCode \<Rightarrow>
          if length (base op) > 16
          then Inr ([Num (js_shr (toInt opCode) 16), Num (js_and (toInt opCode) 65535)], 4)
          else Inr ([opCode], 2))"

text \<open>
  The loop \<^verbatim>\<open>for (const op of ops[opName])\<close>, left by \<^verbatim>\<open>break\<close> at the first
  variant that matches: \<open>Inr None\<close> when none matches (\<^verbatim>\<open>found\<close> stays false),
  \<open>Inl\<close> when a converter throws.
\<close>

fun search_ops :: "InstructionFormat list \<Rightarrow> string \<Rightarrow> labels option
                    \<Rightarrow> error + (number list \<times> int) option" where
  "search_ops [] argstr labels = Inr None"
| "search_ops (op # rest) argstr labels =
     (case match argstr (regex op) of
        None \<Rightarrow> search_ops rest argstr labels
      | Some m \<Rightarrow>
          (case emit_variant op m labels of
             Inl e \<Rightarrow> Inl e
           | Inr r \<Rightarrow> Inr (Some r)))"

text \<open>Lines 674 to 683: the split of an instruction line into \<^verbatim>\<open>opName\<close> and
  \<^verbatim>\<open>args\<close>.\<close>

definition split_instruction :: "string \<Rightarrow> string \<times> string" where
  "split_instruction line =
     (let firstArgEnd =
            (case indexOf line (CHR 0x09) of
               Some i \<Rightarrow> i
             | None \<Rightarrow> (case indexOf line CHR '' '' of
                          Some i \<Rightarrow> i
                        | None \<Rightarrow> length line));
          opName = take firstArgEnd line;
          argstr = trim (filter (\<lambda>c. c \<noteq> CHR '' '' \<and> c \<noteq> CHR 0x09) (drop firstArgEnd line))
      in (opName, argstr))"

text \<open>The body of the \<^verbatim>\<open>forEach\<close> callback for one line. In pass 2 the label
  table gets \<^verbatim>\<open>PC = addr + 4\<close> first.\<close>

definition assemble_line :: "labels option \<Rightarrow> string \<Rightarrow> engine \<Rightarrow> error + engine" where
  "assemble_line labels line0 st =
     (let labels' = map_option (\<lambda>L. L(''PC'' \<mapsto> addr st + 4)) labels;
          line = trim line0
      in if line = [] then Inr st
         else if last line = CHR '':'' then
           (let labelName = butlast line
            in if newLabels st labelName \<noteq> None \<or> inherited labelName
               then Inl (LabelAlreadyDefined labelName)
               else Inr (st\<lparr>newLabels := (newLabels st)(labelName \<mapsto> addr st)\<rparr>))
         else
           (let (opName, argstr) = split_instruction line
            in case map_of ops opName of
                 None \<Rightarrow> if inherited opName then Inl TypeError else Inl (UnknownOp opName line)
               | Some variants \<Rightarrow>
                   (case search_ops variants argstr labels' of
                      Inl e \<Rightarrow> Inl e
                    | Inr None \<Rightarrow> Inl (UnknownArgStyle argstr line)
                    | Inr (Some (ws, bytes)) \<Rightarrow>
                        Inr (st\<lparr>addr := addr st + bytes, emitted := emitted st @ ws\<rparr>))))"

text \<open>\<^verbatim>\<open>asmLines.forEach\<close>: an exception ends the loop and leaves the words
  already handed to the callback where they are.\<close>

fun forEach_line :: "labels option \<Rightarrow> string list \<Rightarrow> engine \<Rightarrow> error option \<times> engine" where
  "forEach_line labels [] st = (None, st)"
| "forEach_line labels (line # rest) st =
     (case assemble_line labels line st of
        Inl e \<Rightarrow> (Some e, st)
      | Inr st' \<Rightarrow> forEach_line labels rest st')"

definition assembleInternal :: "string list \<Rightarrow> labels option \<Rightarrow> error option \<times> engine" where
  "assembleInternal asmLines labels =
     forEach_line labels asmLines \<lparr>addr = 0, newLabels = Map.empty, emitted = []\<rparr>"

text \<open>
  \<^verbatim>\<open>assemble\<close>: pass 1 with an empty callback and no labels, pass 2 with the
  caller's callback and the labels of pass 1. The result is the exception, if any, and
  the words the caller's callback has received.
\<close>

definition assemble :: "string list \<Rightarrow> error option \<times> number list" where
  "assemble asmLines =
     (case assembleInternal asmLines None of
        (Some e, st) \<Rightarrow> (Some e, [])
      | (None, st) \<Rightarrow>
          (case assembleInternal asmLines (Some (newLabels st)) of
             (r, st2) \<Rightarrow> (r, emitted st2)))"

subsection \<open>The public entry\<close>

definition hex_digit :: "nat \<Rightarrow> char" where
  "hex_digit d = (''0123456789abcdef'') ! d"

function hex_nat :: "nat \<Rightarrow> string" where
  "hex_nat n = (if n < 16 then [hex_digit n] else hex_nat (n div 16) @ [hex_digit (n mod 16)])"
  by pat_completeness auto
termination
  by (relation "measure id") auto

declare hex_nat.simps [simp del]

text \<open>\<^verbatim>\<open>word.toString(16)\<close>\<close>

fun toString16 :: "number \<Rightarrow> string" where
  "toString16 NaN = ''NaN''"
| "toString16 (Num n) = (if n < 0 then ''-'' @ hex_nat (nat (- n)) else hex_nat (nat n))"

text \<open>\<^verbatim>\<open>assembleBlock\<close> of \<^verbatim>\<open>src/src/assembler.ts\<close>: the callback pushes
  \<^verbatim>\<open>"0x" + word.toString(16)\<close>; an exception is logged and \<^verbatim>\<open>undefined\<close>
  (\<open>None\<close>) returned.\<close>

definition assembleBlock :: "string list \<Rightarrow> string list option" where
  "assembleBlock asmLines =
     (case assemble asmLines of
        (Some err, machineCode) \<Rightarrow> None
      | (None, machineCode) \<Rightarrow> Some (map (\<lambda>word. ''0x'' @ toString16 word) machineCode))"

text \<open>\<^verbatim>\<open>assembleBlock\<close> of the build \<^verbatim>\<open>src/bin/assembler.js\<close>: the callback
  pushes the word itself, an odd count gets a 0 pushed, and the result is a
  \<^verbatim>\<open>Uint32Array\<close>.\<close>

definition assembleBlock_bin :: "string list \<Rightarrow> int list option" where
  "assembleBlock_bin asmLines =
     (case assemble asmLines of
        (Some err, machineCode) \<Rightarrow> None
      | (None, machineCode) \<Rightarrow>
          Some (map (\<lambda>word. take_bit 32 (toInt word))
                    (if length machineCode mod 2 = 1 then machineCode @ [Num 0]
                     else machineCode)))"

section \<open>The statements of the specification\<close>

text \<open>
  The tokenizer in the specification's words: the mnemonic is the text before the first
  tab or space, whichever comes first, and the argument blob is the remainder with every
  tab and space removed.
\<close>

definition spec_mnemonic :: "string \<Rightarrow> string" where
  "spec_mnemonic line = takeWhile (\<lambda>c. c \<noteq> CHR 0x09 \<and> c \<noteq> CHR '' '') line"

definition spec_argument_blob :: "string \<Rightarrow> string" where
  "spec_argument_blob line =
     filter (\<lambda>c. c \<noteq> CHR 0x09 \<and> c \<noteq> CHR '' '')
            (dropWhile (\<lambda>c. c \<noteq> CHR 0x09 \<and> c \<noteq> CHR '' '') line)"

text \<open>
  Variant selection in the specification's words: the first variant in listed order whose
  pattern matches the argument blob; the label table plays no part. An instruction is 4
  bytes long when the template of its variant has more than 16 characters, 2 otherwise.
\<close>

definition first_match :: "InstructionFormat list \<Rightarrow> string \<Rightarrow> InstructionFormat option" where
  "first_match variants argstr = find (\<lambda>op. match argstr (regex op) \<noteq> None) variants"

definition variant_size :: "InstructionFormat \<Rightarrow> int" where
  "variant_size op = (if length (base op) > 16 then 4 else 2)"

definition selected_variant :: "string \<Rightarrow> InstructionFormat option" where
  "selected_variant line0 =
     (let line = trim line0
      in if line = [] \<or> last line = CHR '':'' then None
         else (case map_of ops (fst (split_instruction line)) of
                 None \<Rightarrow> None
               | Some variants \<Rightarrow> first_match variants (snd (split_instruction line))))"

definition line_bytes :: "string \<Rightarrow> int" where
  "line_bytes line = (case selected_variant line of None \<Rightarrow> 0 | Some op \<Rightarrow> variant_size op)"

text \<open>A pattern without \<^verbatim>\<open>^\<close> is not anchored at the start of the text.\<close>

fun bol_free :: "rx \<Rightarrow> bool" where
  "bol_free Bol = False"
| "bol_free (Seq a b) = (bol_free a \<and> bol_free b)"
| "bol_free (Alt a b) = (bol_free a \<and> bol_free b)"
| "bol_free (Star a) = bol_free a"
| "bol_free (Grp k a) = bol_free a"
| "bol_free r = True"

text \<open>A converter whose every result fits the 16 bits of a short template.\<close>

definition fits16 :: "converter \<Rightarrow> bool" where
  "fits16 c = (\<forall>text labels v. c text labels = Inr v \<longrightarrow> 0 \<le> v \<and> v < 65536)"

definition halfword :: "number \<Rightarrow> bool" where
  "halfword w = (case w of Num n \<Rightarrow> 0 \<le> n \<and> n \<le> 65535 | NaN \<Rightarrow> False)"

section \<open>Runs of the assembler on concrete programs\<close>

lemma run_nop: "assemble [''nop''] = (None, [Num 0x46C0])"
  by code_simp

lemma run_loop:
  "assemble [''loop:'', ''sub r0,#1'', ''bne loop''] = (None, [Num 0x3801, Num 0xD1FD])"
  by code_simp

lemma run_wfe:
  "assemble [''wfe''] = (Some (UnknownArgStyle [] ''wfe''), [])"
  "assemble [''wfi''] = (Some (UnknownArgStyle [] ''wfi''), [])"
  "assemble [''wfe i''] = (None, [Num 0xBF20])"
  "assemble [''wfi i''] = (None, [Num 0xBF30])"
  by code_simp+

lemma run_add_three: "assemble [''add r0,r1,#2''] = (None, [Num 0x3102])"
  by code_simp

lemma run_adds:
  "assemble [''adds r0,r1,2''] = (None, [Num 0x1C88])"
  "assemble [''adds r0,r1,#2''] = (Some (UnknownRegisterOrImmediate ''#2''), [])"
  by code_simp+

lemma run_beq:
  "assemble [''beq #256''] = (None, [Num 0xD080])"
  "assemble [''beq #-256''] = (Some (InvalidNumber ''#-256'' (Num (- 256)) 382 1), [])"
  "assemble [''beq #-130''] = (Some (InvalidNumber ''#-130'' (Num (- 130)) 382 1), [])"
  by code_simp+

lemmas to_hex = assembleBlock_def hex_nat.simps hex_digit_def

text \<open>
  Claim C1 (the returned sequence has even length, an odd count being padded with one
  \<open>0x0000\<close>; \<^verbatim>\<open>["nop"]\<close> gives \<open>[0x46C0, 0x0000]\<close>) fails on
  \<^verbatim>\<open>src/src/assembler.ts\<close>: its \<^verbatim>\<open>assembleBlock\<close> has no padding step and returns
  the single string \<^verbatim>\<open>"0x46c0"\<close>. The build \<^verbatim>\<open>src/bin/assembler.js\<close> of the same
  function does pad and returns \<open>[0x46C0, 0]\<close>.
\<close>

theorem C1_nop_is_not_padded:
  "assembleBlock [''nop''] = Some [''0x46c0'']
   \<and> length (the (assembleBlock [''nop''])) = 1
   \<and> assembleBlock_bin [''nop''] = Some [0x46C0, 0x0000]"
  by (simp add: to_hex assembleBlock_bin_def run_nop)

text \<open>
  Claim C2 (a signed converter \<^verbatim>\<open>sint(off, bits, shift)\<close> accepts exactly the multiples
  of \<open>2^shift\<close> between \<open>-2^(bits-1) * 2^shift\<close> and \<open>(2^(bits-1) - 1) * 2^shift\<close>)
  fails on the code: \<^verbatim>\<open>convertInt\<close> takes \<open>minValue = -(1 << (bits - 1))\<close> without
  the shift and adds it to \<open>((1 << bits) - 1) << shift\<close>. For \<^verbatim>\<open>sint(0, 8, 1)\<close> the
  claim's range is \<open>-256 .. 254\<close>, the code's is \<open>-128 .. 382\<close>: the displacement
  \<open>256\<close> is accepted and encoded as the field \<open>0x80\<close>, which is the encoding of
  \<open>-256\<close>, and the displacements \<open>-256\<close> and \<open>-130\<close> are rejected.
\<close>

theorem C2_sint_range_is_not_scaled:
  "sint 0 8 1 ''#256'' L = Inr 0x80
   \<and> sint 0 8 1 ''#-256'' L = Inl (InvalidNumber ''#-256'' (Num (- 256)) 382 1)
   \<and> sint 0 8 1 ''#-130'' L = Inl (InvalidNumber ''#-130'' (Num (- 130)) 382 1)
   \<and> sint 0 8 1 ''#-128'' L = Inr 0xC0
   \<and> sint 0 8 1 ''#382'' L = Inr 0xBF
   \<and> assembleBlock [''beq #256''] = Some [''0xd080'']
   \<and> assembleBlock [''beq #-256''] = None
   \<and> assembleBlock [''beq #-130''] = None"
proof -
  have "sint 0 8 1 ''#256'' L = Inr 0x80"
    and "sint 0 8 1 ''#-256'' L = Inl (InvalidNumber ''#-256'' (Num (- 256)) 382 1)"
    and "sint 0 8 1 ''#-130'' L = Inl (InvalidNumber ''#-130'' (Num (- 130)) 382 1)"
    and "sint 0 8 1 ''#-128'' L = Inr 0xC0"
    and "sint 0 8 1 ''#382'' L = Inr 0xBF"
    by code_simp+
  then show ?thesis
    by (simp add: to_hex run_beq)
qed

text \<open>
  Claim C4: the three lines \<^verbatim>\<open>loop:\<close>, \<^verbatim>\<open>sub r0,#1\<close>, \<^verbatim>\<open>bne loop\<close> assemble to
  the two half-words \<open>0x3801\<close>, \<open>0xD1FD\<close>. Pass 1 gives \<open>loop = 0\<close> and the
  addresses 2 and 4; in pass 2 the \<^verbatim>\<open>bne\<close> at address 2 sees \<open>PC = 2 + 4 = 6\<close>,
  the displacement is \<open>0 - 6 = -6\<close>, \<^verbatim>\<open>sint(0,8,1)\<close> turns it into the field
  \<open>0xFD\<close>, which is OR-ed into the base \<open>0xD100\<close>.
\<close>

theorem C4_loop_example:
  "fst (assembleInternal [''loop:'', ''sub r0,#1'', ''bne loop''] None) = None
   \<and> newLabels (snd (assembleInternal [''loop:'', ''sub r0,#1'', ''bne loop''] None)) ''loop''
       = Some 0
   \<and> addr (snd (assembleInternal [''loop:''] None)) = 0
   \<and> addr (snd (assembleInternal [''loop:'', ''sub r0,#1''] None)) = 2
   \<and> addr (snd (assembleInternal [''loop:'', ''sub r0,#1'', ''bne loop''] None)) = 4
   \<and> addr (snd (assembleInternal [''loop:'', ''sub r0,#1''] (Some [''loop'' \<mapsto> 0]))) = 2
   \<and> displacement [''loop'' \<mapsto> 0, ''PC'' \<mapsto> 2 + 4] ''loop'' (Num 0) = Num (- 6)
   \<and> sint 0 8 1 ''loop'' [''loop'' \<mapsto> 0, ''PC'' \<mapsto> 2 + 4] = Inr 0xFD
   \<and> getOpCode ''11010001________'' = Num 0xD100
   \<and> js_or 0xD100 0xFD = 0xD1FD
   \<and> assemble [''loop:'', ''sub r0,#1'', ''bne loop''] = (None, [Num 0x3801, Num 0xD1FD])
   \<and> assembleBlock [''loop:'', ''sub r0,#1'', ''bne loop''] = Some [''0x3801'', ''0xd1fd'']
   \<and> assembleBlock_bin [''loop:'', ''sub r0,#1'', ''bne loop''] = Some [0x3801, 0xD1FD]"
proof -
  have "fst (assembleInternal [''loop:'', ''sub r0,#1'', ''bne loop''] None) = None"
    and "newLabels (snd (assembleInternal [''loop:'', ''sub r0,#1'', ''bne loop''] None)) ''loop''
         = Some 0"
    and "addr (snd (assembleInternal [''loop:''] None)) = 0"
    and "addr (snd (assembleInternal [''loop:'', ''sub r0,#1''] None)) = 2"
    and "addr (snd (assembleInternal [''loop:'', ''sub r0,#1'', ''bne loop''] None)) = 4"
    and "addr (snd (assembleInternal [''loop:'', ''sub r0,#1''] (Some [''loop'' \<mapsto> 0]))) = 2"
    and "displacement [''loop'' \<mapsto> 0, ''PC'' \<mapsto> 2 + 4] ''loop'' (Num 0) = Num (- 6)"
    and "sint 0 8 1 ''loop'' [''loop'' \<mapsto> 0, ''PC'' \<mapsto> 2 + 4] = Inr 0xFD"
    and "getOpCode ''11010001________'' = Num 0xD100"
    and "js_or 0xD100 0xFD = 0xD1FD"
    by code_simp+
  then show ?thesis
    by (simp add: to_hex assembleBlock_bin_def run_loop)
qed

text \<open>
  Claim C5 (\<^verbatim>\<open>wfe\<close> and \<^verbatim>\<open>wfi\<close> take no operand and assemble to \<open>0xBF20\<close> and
  \<open>0xBF30\<close>) fails on the code: the two table entries carry the pattern \<^verbatim>\<open>/i/\<close> of
  \<^verbatim>\<open>cpsie\<close> and \<^verbatim>\<open>cpsid\<close>, which the empty argument text does not match, so the
  bare mnemonic is rejected with "Unknown arg style". Only with an operand that contains
  an \<open>i\<close> are the two half-words produced.
\<close>

theorem C5_bare_wfe_is_rejected:
  "assemble [''wfe''] = (Some (UnknownArgStyle [] ''wfe''), [])
   \<and> assembleBlock [''wfe''] = None
   \<and> assembleBlock [''wfi''] = None
   \<and> assembleBlock_bin [''wfe''] = None
   \<and> assembleBlock [''wfe i''] = Some [''0xbf20'']
   \<and> assembleBlock [''wfi i''] = Some [''0xbf30'']"
  by (simp add: to_hex assembleBlock_bin_def run_wfe)

text \<open>
  Claim C9: \<^verbatim>\<open>regOrImmediate\<close> accepts a bare decimal integer 0..7 (setting the
  immediate bit) or a low register name, and rejects every text that starts with
  \<open>#\<close>: \<^verbatim>\<open>adds r0,r1,2\<close> assembles with bit 10 set, \<^verbatim>\<open>adds r0,r1,#2\<close> fails
  with the unknown-register error.
\<close>

theorem C9_regOrImmediate:
  "(\<forall>s. regOrImmediate off ib (CHR ''#'' # s) L
          = Inl (UnknownRegisterOrImmediate (CHR ''#'' # s)))
   \<and> map (\<lambda>t. regOrImmediate 6 10 t L) [''0'', ''1'', ''2'', ''3'', ''4'', ''5'', ''6'', ''7'']
       = map Inr [0x400, 0x440, 0x480, 0x4C0, 0x500, 0x540, 0x580, 0x5C0]
   \<and> map (\<lambda>t. regOrImmediate 6 10 t L)
          [''r0'', ''r1'', ''r2'', ''r3'', ''r4'', ''r5'', ''r6'', ''r7'']
       = map Inr [0x000, 0x040, 0x080, 0x0C0, 0x100, 0x140, 0x180, 0x1C0]
   \<and> assemble [''adds r0,r1,2''] = (None, [Num 0x1C88])
   \<and> js_and 0x1C88 (js_shl 1 10) = js_shl 1 10
   \<and> assembleBlock [''adds r0,r1,2''] = Some [''0x1c88'']
   \<and> assemble [''adds r0,r1,#2''] = (Some (UnknownRegisterOrImmediate ''#2''), [])
   \<and> assembleBlock [''adds r0,r1,#2''] = None"
proof -
  have hash: "\<forall>s. regOrImmediate off ib (CHR ''#'' # s) L
                   = Inl (UnknownRegisterOrImmediate (CHR ''#'' # s))"
    by (simp add: regOrImmediate_def parseInt_def is_space_def is_digit_def digit_value_def
        low_regs_def inherited_def object_prototype_keys_def)
  have "map (\<lambda>t. regOrImmediate 6 10 t L) [''0'', ''1'', ''2'', ''3'', ''4'', ''5'', ''6'', ''7'']
        = map Inr [0x400, 0x440, 0x480, 0x4C0, 0x500, 0x540, 0x580, 0x5C0]"
    and "map (\<lambda>t. regOrImmediate 6 10 t L)
             [''r0'', ''r1'', ''r2'', ''r3'', ''r4'', ''r5'', ''r6'', ''r7'']
         = map Inr [0x000, 0x040, 0x080, 0x0C0, 0x100, 0x140, 0x180, 0x1C0]"
    and "js_and 0x1C88 (js_shl 1 10) = js_shl 1 10"
    by code_simp+
  with hash show ?thesis
    by (simp add: to_hex run_adds)
qed

end
